theory Spec2Isabelle
  imports Main "HOL-Library.Sublist"
begin

section \<open>The session timer (class PomodoroTimer)\<close>

subsection \<open>Data\<close>

text \<open>
  The string unions \<^verbatim>\<open>TimerState\<close>, \<^verbatim>\<open>SessionType\<close> and \<^verbatim>\<open>TimerEvent\<close> of the
  timer module are datatypes. Numbers are JavaScript numbers in the source; the durations
  come from the settings form, which stores \<^verbatim>\<open>parseInt\<close> of its inputs, so seconds
  and minutes are integers here. The work-session counter starts at 0 and is only ever
  written by \<^verbatim>\<open>sessionCount++\<close>, so it is a natural number.
\<close>

datatype TimerState = Idle | Running | Paused | Completed

datatype SessionType = Work | Break | LongBreak

datatype TimerEvent = EvStart | EvPause | EvResume | EvStop | EvTick | EvComplete

record TimerInfo =
  info_state :: TimerState
  info_type :: SessionType
  info_duration :: int
  info_timeRemaining :: int
  info_sessionCount :: nat
  info_sessionId :: "int option"

text \<open>
  A call that can throw: \<open>Returned x\<close> when it returns normally with the state \<open>x\<close>,
  \<open>Threw x\<close> when an exception leaves it (or its promise is rejected) with the state
  \<open>x\<close> reached at that moment.
\<close>

datatype 'a outcome = Returned 'a | Threw 'a

fun after :: "'a outcome \<Rightarrow> 'a" where
  "after (Returned x) = x"
| "after (Threw x) = x"

fun threw :: "'a outcome \<Rightarrow> bool" where
  "threw (Returned x) = False"
| "threw (Threw x) = True"

text \<open>
  A listener is a function of the event and the snapshot. What it does is outside the
  timer: it acts on a world \<open>'w\<close> of its own (the page's component state), and it may
  throw. Listeners that call back into the timer are not modelled.
\<close>

type_synonym 'w TimerEventListener = "TimerEvent \<Rightarrow> TimerInfo \<Rightarrow> 'w \<Rightarrow> 'w outcome"

record 'w PomodoroTimer =
  state :: TimerState
  sessionType :: SessionType
  timeRemaining :: int
  duration :: int
  timerId :: "nat option"
  sessionCount :: nat
  sessionId :: "int option"
  listeners :: "'w TimerEventListener list"
  startTime :: "nat option"

text \<open>The field initialisers of the class.\<close>

definition new_timer :: "'w PomodoroTimer" where
  "new_timer =
     \<lparr>state = Idle, sessionType = Work, timeRemaining = 0, duration = 0, timerId = None,
      sessionCount = 0, sessionId = None, listeners = [], startTime = None\<rparr>"

record Settings =
  workDuration :: int
  breakDuration :: int
  longBreakDuration :: int
  sessionsBeforeLongBreak :: int
  autoStartBreaks :: bool
  autoStartPomodoros :: bool
  notificationSound :: string
  notificationVolume :: int

text \<open>The \<^verbatim>\<open>settings\<close> entry of \<^verbatim>\<open>defaultStorageItems\<close>.\<close>

definition defaultSettings :: Settings where
  "defaultSettings =
     \<lparr>workDuration = 25, breakDuration = 5, longBreakDuration = 15,
      sessionsBeforeLongBreak = 4, autoStartBreaks = True, autoStartPomodoros = False,
      notificationSound = ''bell'', notificationVolume = 50\<rparr>"

text \<open>The \<^verbatim>\<open>currentSession\<close> entry of the store, as \<^verbatim>\<open>updateStorage\<close> writes it.\<close>

record StoredSession =
  cs_id :: "int option"
  cs_type :: SessionType
  cs_startTime :: "nat option"
  cs_endTime :: "nat option"
  cs_completed :: bool
  cs_timeRemaining :: int
  cs_isActive :: bool

text \<open>
  What the methods touch outside the object: the listeners' world, the stored
  \<^verbatim>\<open>currentSession\<close>, the lines written by \<^verbatim>\<open>console.error\<close>, and the browser's
  interval table (the live handles, and how many handles were issued so far; the
  browser issues positive handles).
\<close>

record 'w env =
  world :: 'w
  currentSession :: "StoredSession option"
  console :: "string list"
  intervals :: "nat list"
  issued :: nat

definition new_env :: "'w \<Rightarrow> 'w env" where
  "new_env w = \<lparr>world = w, currentSession = None, console = [], intervals = [], issued = 0\<rparr>"

definition console_error :: "string \<Rightarrow> 'w env \<Rightarrow> 'w env" where
  "console_error msg e = e\<lparr>console := console e @ [msg]\<rparr>"

definition setInterval :: "'w env \<Rightarrow> nat \<times> 'w env" where
  "setInterval e =
     (Suc (issued e), e\<lparr>intervals := intervals e @ [Suc (issued e)], issued := Suc (issued e)\<rparr>)"

definition clearInterval :: "nat \<Rightarrow> 'w env \<Rightarrow> 'w env" where
  "clearInterval h e = e\<lparr>intervals := removeAll h (intervals e)\<rparr>"

text \<open>JavaScript truthiness of a \<^verbatim>\<open>number | null\<close>: \<^verbatim>\<open>null\<close> and 0 are falsy.\<close>

fun truthy :: "'a::zero option \<Rightarrow> bool" where
  "truthy None = False"
| "truthy (Some n) = (n \<noteq> 0)"

subsection \<open>getInfo and emitEvent\<close>

definition getInfo :: "'w PomodoroTimer \<Rightarrow> TimerInfo" where
  "getInfo t =
     \<lparr>info_state = state t, info_type = sessionType t, info_duration = duration t,
      info_timeRemaining = timeRemaining t, info_sessionCount = sessionCount t,
      info_sessionId = sessionId t\<rparr>"

text \<open>
  The \<^verbatim>\<open>for (const listener of this.listeners) listener(event, info)\<close> loop: there is
  no \<^verbatim>\<open>try\<close> around the call, so the first listener that throws ends the loop.
\<close>

fun emit_loop :: "'w TimerEventListener list \<Rightarrow> TimerEvent \<Rightarrow> TimerInfo \<Rightarrow> 'w \<Rightarrow> 'w outcome" where
  "emit_loop [] ev info w = Returned w"
| "emit_loop (l # ls) ev info w =
     (case l ev info w of
        Returned w' \<Rightarrow> emit_loop ls ev info w'
      | Threw w' \<Rightarrow> Threw w')"

definition emitEvent :: "TimerEvent \<Rightarrow> 'w PomodoroTimer \<Rightarrow> 'w env \<Rightarrow> 'w env outcome" where
  "emitEvent ev t e =
     (case emit_loop (listeners t) ev (getInfo t) (world e) of
        Returned w \<Rightarrow> Returned (e\<lparr>world := w\<rparr>)
      | Threw w \<Rightarrow> Threw (e\<lparr>world := w\<rparr>))"


subsection \<open>The methods\<close>

text \<open>
  Each method is modelled as running to its end before the next call or tick begins:
  what the \<^verbatim>\<open>await\<close>ed calls answer is an argument. \<open>settings\<close> is what
  \<^verbatim>\<open>getStorageItem('settings')\<close> resolves to (it never rejects), \<open>resp\<close> is the id in
  the answer of \<^verbatim>\<open>POST /api/sessions/start\<close> (\<open>None\<close> when the request or the decoding
  of its answer throws), \<open>ok\<close> says whether \<^verbatim>\<open>POST /api/sessions/{id}/complete\<close>
  succeeded, and \<open>now\<close> is the clock read by \<^verbatim>\<open>new Date()\<close>. The user id, which
  only travels in the body of the start request, is left out.
\<close>

definition updateStorage :: "'w PomodoroTimer \<Rightarrow> 'w env \<Rightarrow> 'w env" where
  "updateStorage t e =
     e\<lparr>currentSession := Some
         \<lparr>cs_id = sessionId t, cs_type = sessionType t, cs_startTime = startTime t,
          cs_endTime = None, cs_completed = False, cs_timeRemaining = timeRemaining t,
          cs_isActive = (state t = Running \<or> state t = Paused)\<rparr>\<rparr>"

text \<open>
  \<^verbatim>\<open>if (this.timerId) { window.clearInterval(this.timerId); this.timerId = null; }\<close>,
  the opening of \<^verbatim>\<open>pause\<close>, \<^verbatim>\<open>stop\<close> and \<^verbatim>\<open>completeSession\<close>.
\<close>

definition cancelTimer :: "'w PomodoroTimer \<Rightarrow> 'w env \<Rightarrow> 'w PomodoroTimer \<times> 'w env" where
  "cancelTimer t e =
     (case timerId t of
        None \<Rightarrow> (t, e)
      | Some h \<Rightarrow> if h \<noteq> 0 then (t\<lparr>timerId := None\<rparr>, clearInterval h e) else (t, e))"

definition startTicking :: "'w PomodoroTimer \<Rightarrow> 'w env \<Rightarrow> 'w PomodoroTimer \<times> 'w env" where
  "startTicking t e =
     (let e1 = (case timerId t of
                  None \<Rightarrow> e
                | Some h \<Rightarrow> if h \<noteq> 0 then clearInterval h e else e);
          (h', e2) = setInterval e1
      in (t\<lparr>timerId := Some h'\<rparr>, e2))"

definition reset :: "'w PomodoroTimer \<Rightarrow> 'w env \<Rightarrow> 'w PomodoroTimer \<times> 'w env" where
  "reset t e =
     (let t' = t\<lparr>state := Idle, sessionType := Work, timeRemaining := 0, duration := 0,
                 sessionId := None\<rparr>
      in (t', updateStorage t' e))"

fun with_timer :: "'w PomodoroTimer \<Rightarrow> 'w env outcome \<Rightarrow> ('w PomodoroTimer \<times> 'w env) outcome" where
  "with_timer t (Returned e) = Returned (t, e)"
| "with_timer t (Threw e) = Threw (t, e)"

text \<open>The \<^verbatim>\<open>switch (this.sessionType)\<close> of \<^verbatim>\<open>start\<close>.\<close>

fun configuredDuration :: "Settings \<Rightarrow> SessionType \<Rightarrow> int" where
  "configuredDuration settings Work = workDuration settings * 60"
| "configuredDuration settings Break = breakDuration settings * 60"
| "configuredDuration settings LongBreak = longBreakDuration settings * 60"

text \<open>
  \<^verbatim>\<open>start\<close>: every statement that can throw is inside its \<^verbatim>\<open>try\<close>, so the call
  always returns. The fields are assigned before the \<^verbatim>\<open>try\<close>.
\<close>

definition start ::
  "SessionType option \<Rightarrow> Settings \<Rightarrow> int option \<Rightarrow> nat \<Rightarrow> 'w PomodoroTimer \<Rightarrow> 'w env
     \<Rightarrow> 'w PomodoroTimer \<times> 'w env" where
  "start ty settings resp now t e =
     (if state t = Running then (t, e)
      else
        let t1 = (case ty of None \<Rightarrow> t | Some x \<Rightarrow> t\<lparr>sessionType := x\<rparr>);
            t2 = t1\<lparr>duration := configuredDuration settings (sessionType t1)\<rparr>;
            t3 = t2\<lparr>timeRemaining := duration t2, state := Running, startTime := Some now\<rparr>
        in case resp of
             None \<Rightarrow> (t3, console_error ''Failed to start session:'' e)
           | Some i \<Rightarrow>
               let t4 = t3\<lparr>sessionId := Some i\<rparr>;
                   (t5, e1) = startTicking t4 e;
                   e2 = updateStorage t5 e1
               in (case emitEvent EvStart t5 e2 of
                     Returned e3 \<Rightarrow> (t5, e3)
                   | Threw e3 \<Rightarrow> (t5, console_error ''Failed to start session:'' e3)))"

definition pause :: "'w PomodoroTimer \<Rightarrow> 'w env \<Rightarrow> ('w PomodoroTimer \<times> 'w env) outcome" where
  "pause t e =
     (if state t \<noteq> Running then Returned (t, e)
      else
        let (t1, e1) = cancelTimer t e;
            t2 = t1\<lparr>state := Paused\<rparr>
        in with_timer t2 (emitEvent EvPause t2 (updateStorage t2 e1)))"

definition resume :: "'w PomodoroTimer \<Rightarrow> 'w env \<Rightarrow> ('w PomodoroTimer \<times> 'w env) outcome" where
  "resume t e =
     (if state t \<noteq> Paused then Returned (t, e)
      else
        let (t1, e1) = startTicking (t\<lparr>state := Running\<rparr>) e
        in with_timer t1 (emitEvent EvResume t1 (updateStorage t1 e1)))"

definition stop :: "bool \<Rightarrow> 'w PomodoroTimer \<Rightarrow> 'w env \<Rightarrow> ('w PomodoroTimer \<times> 'w env) outcome" where
  "stop ok t e =
     (if state t = Idle then Returned (t, e)
      else
        let (t1, e1) = cancelTimer t e;
            e2 = (if truthy (sessionId t1) \<and> \<not> ok
                  then console_error ''Failed to complete session:'' e1 else e1);
            (t2, e3) = reset t1 e2
        in with_timer t2 (emitEvent EvStop t2 e3))"

text \<open>
  JavaScript's \<^verbatim>\<open>%\<close> on integers: the sign of the dividend, and \<^verbatim>\<open>NaN\<close> (here
  \<open>None\<close>) for a zero divisor. \<^verbatim>\<open>NaN === 0\<close> is false.
\<close>

definition js_rem :: "int \<Rightarrow> int \<Rightarrow> int option" where
  "js_rem a b = (if b = 0 then None else Some (sgn a * (\<bar>a\<bar> mod \<bar>b\<bar>)))"

text \<open>The choice of \<^verbatim>\<open>nextSessionType\<close> in \<^verbatim>\<open>completeSession\<close>; \<open>None\<close> is \<^verbatim>\<open>null\<close>.\<close>

definition nextSessionType :: "Settings \<Rightarrow> 'w PomodoroTimer \<Rightarrow> SessionType option" where
  "nextSessionType settings t =
     (if sessionType t = Work then
        (if js_rem (int (sessionCount t)) (sessionsBeforeLongBreak settings) = Some 0
         then Some LongBreak else Some Break)
      else if autoStartPomodoros settings then Some Work
      else None)"

text \<open>The condition of the last \<^verbatim>\<open>if\<close> of \<^verbatim>\<open>completeSession\<close>.\<close>

fun autoStarts :: "Settings \<Rightarrow> SessionType option \<Rightarrow> bool" where
  "autoStarts settings None = False"
| "autoStarts settings (Some n) =
     ((n = Work \<and> autoStartPomodoros settings) \<or> (n \<noteq> Work \<and> autoStartBreaks settings))"

text \<open>
  \<^verbatim>\<open>completeSession\<close> in two parts. The first runs up to and including
  \<^verbatim>\<open>this.emitEvent('complete')\<close>; a listener that throws there rejects the promise, and
  the rest of the method does not run. The second is the rest: the choice of the next
  session and \<^verbatim>\<open>start\<close> or \<^verbatim>\<open>reset\<close>. Playing the sound and showing the
  notification touch no field of the timer and are left out.
\<close>

definition completeSession_head ::
  "bool \<Rightarrow> 'w PomodoroTimer \<Rightarrow> 'w env \<Rightarrow> ('w PomodoroTimer \<times> 'w env) outcome" where
  "completeSession_head ok t e =
     (let (t1, e1) = cancelTimer t e;
          t2 = t1\<lparr>state := Completed\<rparr>;
          e2 = (if truthy (sessionId t2) \<and> \<not> ok
                then console_error ''Failed to complete session:'' e1 else e1);
          t3 = (if sessionType t2 = Work then t2\<lparr>sessionCount := sessionCount t2 + 1\<rparr> else t2)
      in with_timer t3 (emitEvent EvComplete t3 e2))"

definition completeSession_tail ::
  "Settings \<Rightarrow> int option \<Rightarrow> nat \<Rightarrow> 'w PomodoroTimer \<Rightarrow> 'w env \<Rightarrow> 'w PomodoroTimer \<times> 'w env" where
  "completeSession_tail settings resp now t e =
     (let nxt = nextSessionType settings t
      in if autoStarts settings nxt then start nxt settings resp now t e else reset t e)"

definition completeSession ::
  "Settings \<Rightarrow> bool \<Rightarrow> int option \<Rightarrow> nat \<Rightarrow> 'w PomodoroTimer \<Rightarrow> 'w env
     \<Rightarrow> ('w PomodoroTimer \<times> 'w env) outcome" where
  "completeSession settings ok resp now t e =
     (case completeSession_head ok t e of
        Threw x \<Rightarrow> Threw x
      | Returned (t1, e1) \<Rightarrow> Returned (completeSession_tail settings resp now t1 e1))"

text \<open>
  The callback that \<^verbatim>\<open>startTicking\<close> hands to \<^verbatim>\<open>setInterval\<close>; the browser
  calls it once a second while the interval is live. It starts \<^verbatim>\<open>completeSession\<close>
  without awaiting it, as \<^verbatim>\<open>initialize\<close> does: for these two, \<open>Threw\<close> also stands
  for the rejection of the promise they started.
\<close>

definition tick ::
  "Settings \<Rightarrow> bool \<Rightarrow> int option \<Rightarrow> nat \<Rightarrow> 'w PomodoroTimer \<Rightarrow> 'w env
     \<Rightarrow> ('w PomodoroTimer \<times> 'w env) outcome" where
  "tick settings ok resp now t e =
     (if timeRemaining t \<le> 0 then completeSession settings ok resp now t e
      else
        let t1 = t\<lparr>timeRemaining := timeRemaining t - 1\<rparr>
        in with_timer t1 (emitEvent EvTick t1 (updateStorage t1 e)))"

text \<open>
  \<^verbatim>\<open>initialize\<close>, called by the constructor, reads the stored
  \<^verbatim>\<open>currentSession\<close>.
\<close>

definition initialize ::
  "Settings \<Rightarrow> bool \<Rightarrow> int option \<Rightarrow> nat \<Rightarrow> 'w PomodoroTimer \<Rightarrow> 'w env
     \<Rightarrow> ('w PomodoroTimer \<times> 'w env) outcome" where
  "initialize settings ok resp now t e =
     (case currentSession e of
        None \<Rightarrow> Returned (reset t e)
      | Some cs \<Rightarrow>
          if cs_isActive cs then
            let t1 = t\<lparr>sessionType := cs_type cs, sessionId := cs_id cs, state := Running,
                        timeRemaining := cs_timeRemaining cs\<rparr>
            in if timeRemaining t1 > 0 then
                 let (t2, e2) = startTicking t1 e
                 in with_timer t2 (emitEvent EvResume t2 e2)
               else completeSession settings ok resp now t1 e
          else Returned (reset t e))"

subsection \<open>Calls and ticks in sequence\<close>

text \<open>
  What the environment answers during one call: the stored settings, whether the
  completion request succeeds, the id the start request answers with, and the clock.
\<close>

record Answers =
  ans_settings :: Settings
  ans_ok :: bool
  ans_resp :: "int option"
  ans_now :: nat

datatype Call = CallStart "SessionType option" | CallPause | CallResume | CallStop | ClockTick

text \<open>
  One call of a public method, or one second of the clock. The browser runs the interval
  callback only while an interval is live; every interval is registered by
  \<^verbatim>\<open>startTicking\<close> with the same callback.
\<close>

fun perform ::
  "Answers \<Rightarrow> Call \<Rightarrow> 'w PomodoroTimer \<times> 'w env \<Rightarrow> ('w PomodoroTimer \<times> 'w env) outcome" where
  "perform a (CallStart ty) (t, e) =
     Returned (start ty (ans_settings a) (ans_resp a) (ans_now a) t e)"
| "perform a CallPause (t, e) = pause t e"
| "perform a CallResume (t, e) = resume t e"
| "perform a CallStop (t, e) = stop (ans_ok a) t e"
| "perform a ClockTick (t, e) =
     (if intervals e = [] then Returned (t, e)
      else tick (ans_settings a) (ans_ok a) (ans_resp a) (ans_now a) t e)"

text \<open>
  A sequence of calls. An exception that leaves a call does not end the object's life:
  the next call finds the fields as the failed call left them.
\<close>

fun run ::
  "(Answers \<times> Call) list \<Rightarrow> 'w PomodoroTimer \<times> 'w env \<Rightarrow> 'w PomodoroTimer \<times> 'w env" where
  "run [] s = s"
| "run ((a, c) # cs) s = run cs (after (perform a c s))"

text \<open>The interval callback run once for each element of the list of answers.\<close>

fun ticks ::
  "Answers list \<Rightarrow> 'w PomodoroTimer \<times> 'w env \<Rightarrow> 'w PomodoroTimer \<times> 'w env" where
  "ticks [] s = s"
| "ticks (a # as) (t, e) =
     ticks as (after (tick (ans_settings a) (ans_ok a) (ans_resp a) (ans_now a) t e))"

subsection \<open>Two listeners used in the examples\<close>

text \<open>
  Listeners whose world is a log of the calls they received: \<open>recorder k\<close> appends its
  call and returns, \<open>failing k\<close> appends its call and throws.
\<close>

type_synonym call_log = "(nat \<times> TimerEvent \<times> TimerInfo) list"

definition recorder :: "nat \<Rightarrow> call_log TimerEventListener" where
  "recorder k ev info w = Returned (w @ [(k, ev, info)])"


text \<open>
  The answers of an environment with the default settings, in which every request
  succeeds.
\<close>

definition default_answers :: Answers where
  "default_answers =
     \<lparr>ans_settings = defaultSettings, ans_ok = True, ans_resp = Some 8, ans_now = 0\<rparr>"

section \<open>Blocking (background script and content script)\<close>

record BlockedSite =
  site_id :: int
  url :: string
  isActive :: bool

text \<open>
  \<^verbatim>\<open>new URL(s).hostname\<close> is the browser's: it is a parameter \<open>hn\<close> of the model,
  \<open>None\<close> where the constructor throws its \<^verbatim>\<open>TypeError\<close>. \<^verbatim>\<open>includes\<close> is
  \<^const>\<open>sublist\<close> (a contiguous run) and \<^verbatim>\<open>startsWith\<close> is \<^const>\<open>prefix\<close>.
  A result \<open>None\<close> of the functions below is that exception leaving them.
\<close>

type_synonym hostname = "string \<Rightarrow> string option"

text \<open>The content script's \<^verbatim>\<open>checkIfBlocked(url, blockedSites)\<close>.\<close>

fun checkIfBlocked :: "hostname \<Rightarrow> string \<Rightarrow> BlockedSite list \<Rightarrow> bool option" where
  "checkIfBlocked hn u [] = Some False"
| "checkIfBlocked hn u (site # sites) =
     (if isActive site then
        (case hn (url site) of
           None \<Rightarrow> None
         | Some h \<Rightarrow> if sublist h u then Some True else checkIfBlocked hn u sites)
      else checkIfBlocked hn u sites)"

text \<open>
  The content script's \<^verbatim>\<open>initialize\<close>, up to the overlay: \<open>cur\<close> and \<open>sites\<close> are the
  stored \<^verbatim>\<open>currentSession\<close> and \<^verbatim>\<open>blockedSites\<close> (\<open>None\<close> when absent), the result
  says whether the overlay is shown.
\<close>

definition content_initialize ::
  "hostname \<Rightarrow> StoredSession option \<Rightarrow> BlockedSite list option \<Rightarrow> string \<Rightarrow> bool option" where
  "content_initialize hn cur sites u =
     (case cur of
        None \<Rightarrow> Some False
      | Some s \<Rightarrow>
          if cs_isActive s \<and> cs_type s = Work then
            (case sites of None \<Rightarrow> Some False | Some bs \<Rightarrow> checkIfBlocked hn u bs)
          else Some False)"

text \<open>
  The two module variables of the background script that the blocking path reads.
\<close>

record Background =
  isWorkSessionActive :: bool
  blockedSites :: "BlockedSite list"

definition new_background :: Background where
  "new_background = \<lparr>isWorkSessionActive = False, blockedSites = []\<rparr>"

text \<open>
  The background script's \<^verbatim>\<open>isBlocked(url)\<close>; its loop is, word for word, the loop of
  \<^verbatim>\<open>checkIfBlocked\<close> over the module's \<^verbatim>\<open>blockedSites\<close>.
\<close>

definition isBlocked :: "hostname \<Rightarrow> Background \<Rightarrow> string \<Rightarrow> bool option" where
  "isBlocked hn bg u =
     (if prefix ''chrome-extension://'' u then Some False
      else checkIfBlocked hn u (blockedSites bg))"

text \<open>
  \<^verbatim>\<open>handleStorageChange\<close>: of \<^verbatim>\<open>changes\<close>, the new values of the two keys it reads
  (\<open>None\<close> when the key did not change; a changed \<^verbatim>\<open>currentSession\<close> may be
  \<^verbatim>\<open>null\<close>). Setting up and removing the blocking rules only write to the console.
\<close>

definition handleStorageChange ::
  "BlockedSite list option \<Rightarrow> StoredSession option option \<Rightarrow> string \<Rightarrow> Background \<Rightarrow> Background" where
  "handleStorageChange sitesChange sessionChange namespace bg =
     (if namespace = ''sync'' then
        let bg1 = (case sitesChange of None \<Rightarrow> bg | Some bs \<Rightarrow> bg\<lparr>blockedSites := bs\<rparr>)
        in (case sessionChange of
              None \<Rightarrow> bg1
            | Some None \<Rightarrow> bg1\<lparr>isWorkSessionActive := False\<rparr>
            | Some (Some s) \<Rightarrow>
                if cs_isActive s then bg1\<lparr>isWorkSessionActive := (cs_type s = Work)\<rparr>
                else bg1\<lparr>isWorkSessionActive := False\<rparr>)
      else bg)"

text \<open>
  \<^verbatim>\<open>handleTabUpdate\<close>: the result says whether the tab is redirected to the blocked
  page. A missing \<^verbatim>\<open>tab.url\<close> is the empty string.
\<close>

definition handleTabUpdate :: "hostname \<Rightarrow> Background \<Rightarrow> string \<Rightarrow> string \<Rightarrow> bool option" where
  "handleTabUpdate hn bg status u =
     (if status \<noteq> ''complete'' \<or> u = [] then Some False
      else if isWorkSessionActive bg then isBlocked hn bg u
      else Some False)"

text \<open>
  A hostname table for the examples: the one URL they parse, and what the browser
  answers for it.
\<close>

definition example_hostname :: hostname where
  "example_hostname s = (if s = ''https://facebook.com'' then Some ''facebook.com'' else None)"

section \<open>Properties of the timer\<close>

subsection \<open>Auxiliary facts\<close>

lemma with_timer_fst [simp]: "fst (after (with_timer t x)) = t"
  by (cases x) simp_all

lemma with_timer_threw [simp]: "threw (with_timer t x) = threw x"
  by (cases x) simp_all

lemma cancelTimer_fields [simp]:
  "state (fst (cancelTimer t e)) = state t"
  "sessionType (fst (cancelTimer t e)) = sessionType t"
  "timeRemaining (fst (cancelTimer t e)) = timeRemaining t"
  "duration (fst (cancelTimer t e)) = duration t"
  "sessionCount (fst (cancelTimer t e)) = sessionCount t"
  "sessionId (fst (cancelTimer t e)) = sessionId t"
  "listeners (fst (cancelTimer t e)) = listeners t"
  "startTime (fst (cancelTimer t e)) = startTime t"
  by (auto simp: cancelTimer_def split: option.splits)

lemma reset_fields [simp]:
  "state (fst (reset t e)) = Idle"
  "sessionType (fst (reset t e)) = Work"
  "timeRemaining (fst (reset t e)) = 0"
  "duration (fst (reset t e)) = 0"
  "sessionId (fst (reset t e)) = None"
  "sessionCount (fst (reset t e)) = sessionCount t"
  "timerId (fst (reset t e)) = timerId t"
  "listeners (fst (reset t e)) = listeners t"
  by (simp_all add: reset_def Let_def)




lemma head_fields:
  "state (fst (after (completeSession_head ok t e))) = Completed"
  "timeRemaining (fst (after (completeSession_head ok t e))) = timeRemaining t"
  "sessionType (fst (after (completeSession_head ok t e))) = sessionType t"
  "sessionCount (fst (after (completeSession_head ok t e)))
     = (if sessionType t = Work then sessionCount t + 1 else sessionCount t)"
  "listeners (fst (after (completeSession_head ok t e))) = listeners t"
proof -
  obtain t1 e1 where c: "cancelTimer t e = (t1, e1)" by force
  have "state t1 = state t" "sessionType t1 = sessionType t"
    "timeRemaining t1 = timeRemaining t" "sessionCount t1 = sessionCount t"
    "listeners t1 = listeners t"
    using cancelTimer_fields [of t e] c by simp_all
  then show
    "state (fst (after (completeSession_head ok t e))) = Completed"
    "timeRemaining (fst (after (completeSession_head ok t e))) = timeRemaining t"
    "sessionType (fst (after (completeSession_head ok t e))) = sessionType t"
    "sessionCount (fst (after (completeSession_head ok t e)))
       = (if sessionType t = Work then sessionCount t + 1 else sessionCount t)"
    "listeners (fst (after (completeSession_head ok t e))) = listeners t"
    by (simp_all add: completeSession_head_def c Let_def)
qed


lemma js_rem_zero_iff: "js_rem a b = Some 0 \<longleftrightarrow> b \<noteq> 0 \<and> b dvd a"
proof (cases "b = 0")
  case True
  then show ?thesis by (simp add: js_rem_def)
next
  case False
  have "sgn a * (\<bar>a\<bar> mod \<bar>b\<bar>) = 0 \<longleftrightarrow> \<bar>b\<bar> dvd \<bar>a\<bar>"
    by (cases "a = 0") (auto simp: sgn_if mod_eq_0_iff_dvd)
  with False show ?thesis by (simp add: js_rem_def)
qed

lemma start_not_running:
  "state t \<noteq> Running \<Longrightarrow>
   state (fst (start ty settings resp now t e)) = Running
   \<and> sessionType (fst (start ty settings resp now t e))
       = (case ty of None \<Rightarrow> sessionType t | Some x \<Rightarrow> x)
   \<and> timeRemaining (fst (start ty settings resp now t e))
       = configuredDuration settings (case ty of None \<Rightarrow> sessionType t | Some x \<Rightarrow> x)
   \<and> duration (fst (start ty settings resp now t e))
       = configuredDuration settings (case ty of None \<Rightarrow> sessionType t | Some x \<Rightarrow> x)
   \<and> sessionCount (fst (start ty settings resp now t e)) = sessionCount t"
  by (auto simp: start_def startTicking_def setInterval_def Let_def
           split: option.splits outcome.splits prod.splits)

lemma start_ok_fields:
  "state t \<noteq> Running \<Longrightarrow>
   fst (start ty settings (Some i) now t e)
     = t\<lparr>sessionType := (case ty of None \<Rightarrow> sessionType t | Some x \<Rightarrow> x),
          duration := configuredDuration settings (case ty of None \<Rightarrow> sessionType t | Some x \<Rightarrow> x),
          timeRemaining := configuredDuration settings (case ty of None \<Rightarrow> sessionType t | Some x \<Rightarrow> x),
          state := Running, startTime := Some now, sessionId := Some i,
          timerId := Some (Suc (issued e))\<rparr>"
  by (auto simp: start_def startTicking_def setInterval_def clearInterval_def Let_def
           split: option.splits outcome.splits prod.splits)

lemma tick_positive:
  "0 < timeRemaining t \<Longrightarrow>
   fst (after (tick settings ok resp now t e)) = t\<lparr>timeRemaining := timeRemaining t - 1\<rparr>"
  by (simp add: tick_def Let_def)

lemma tick_at_zero:
  "timeRemaining t \<le> 0 \<Longrightarrow>
   tick settings ok resp now t e = completeSession settings ok resp now t e"
  by (simp add: tick_def)

lemma ticks_count:
  "int (length as) \<le> timeRemaining t \<Longrightarrow>
   fst (ticks as (t, e)) = t\<lparr>timeRemaining := timeRemaining t - int (length as)\<rparr>"
proof (induction as arbitrary: t e)
  case Nil
  then show ?case by simp
next
  case (Cons a as)
  obtain t1 e1 where
    s: "after (tick (ans_settings a) (ans_ok a) (ans_resp a) (ans_now a) t e) = (t1, e1)"
    by force
  from Cons.prems have "0 < timeRemaining t" by simp
  then have f: "t1 = t\<lparr>timeRemaining := timeRemaining t - 1\<rparr>"
    using tick_positive [of t "ans_settings a" "ans_ok a" "ans_resp a" "ans_now a" e] s by simp
  from Cons.prems have "int (length as) \<le> timeRemaining t1"
    by (simp add: f)
  then have "fst (ticks as (t1, e1)) = t1\<lparr>timeRemaining := timeRemaining t1 - int (length as)\<rparr>"
    by (rule Cons.IH)
  then show ?case by (simp add: s f)
qed

lemma after_with_timer_snd: "snd (after (with_timer t x)) = after x"
  by (cases x) simp_all

lemma emitEvent_world:
  "world (after (emitEvent ev t e)) = after (emit_loop (listeners t) ev (getInfo t) (world e))"
  by (simp add: emitEvent_def split: outcome.splits)

lemma head_snapshot:
  "world (snd (after (completeSession_head ok t e)))
     = after (emit_loop (listeners t) EvComplete
         \<lparr>info_state = Completed, info_type = sessionType t, info_duration = duration t,
          info_timeRemaining = timeRemaining t,
          info_sessionCount = (if sessionType t = Work then sessionCount t + 1 else sessionCount t),
          info_sessionId = sessionId t\<rparr>
         (world e))"
  by (auto simp: completeSession_head_def cancelTimer_def clearInterval_def console_error_def
        after_with_timer_snd emitEvent_world getInfo_def Let_def
      split: option.splits)

subsection \<open>The countdown\<close>

text \<open>
  Claim C1, as amended. A tick that finds \<open>timeRemaining\<close> above 0 takes exactly 1 from
  it, leaves every other field as it was (the state too, also when 0 is reached), and
  does not go below 0; so \<open>N\<close> ticks, for \<open>N\<close> up to \<open>timeRemaining\<close>, take exactly
  \<open>N\<close>. The transition to \<open>Completed\<close> is made by the first tick that finds
  \<open>timeRemaining\<close> at 0 or below: that tick takes nothing from it and runs
  \<^verbatim>\<open>completeSession\<close>, which sets the state to \<open>Completed\<close> before it tells the
  listeners: the snapshot they receive with the \<^verbatim>\<open>complete\<close> event has the state
  \<open>Completed\<close>.
\<close>

theorem countdown:
  "(0 < timeRemaining t \<longrightarrow>
      fst (after (tick settings ok resp now t e)) = t\<lparr>timeRemaining := timeRemaining t - 1\<rparr>
      \<and> 0 \<le> timeRemaining (fst (after (tick settings ok resp now t e))))
   \<and> (int (length as) \<le> timeRemaining t \<longrightarrow>
      fst (ticks as (t, e)) = t\<lparr>timeRemaining := timeRemaining t - int (length as)\<rparr>)
   \<and> (timeRemaining t \<le> 0 \<longrightarrow>
      tick settings ok resp now t e = completeSession settings ok resp now t e
      \<and> state (fst (after (completeSession_head ok t e))) = Completed
      \<and> timeRemaining (fst (after (completeSession_head ok t e))) = timeRemaining t
      \<and> world (snd (after (completeSession_head ok t e)))
          = after (emit_loop (listeners t) EvComplete
              \<lparr>info_state = Completed, info_type = sessionType t, info_duration = duration t,
               info_timeRemaining = timeRemaining t,
               info_sessionCount =
                 (if sessionType t = Work then sessionCount t + 1 else sessionCount t),
               info_sessionId = sessionId t\<rparr>
              (world e)))"
  by (simp add: tick_positive ticks_count tick_at_zero head_fields head_snapshot)

theorem countdown_witness:
  "fst (after (tick defaultSettings True None 0
          (new_timer\<lparr>state := Running, timeRemaining := 2, listeners := [recorder 1]\<rparr>) (new_env [])))
     = new_timer\<lparr>state := Running, timeRemaining := 1, listeners := [recorder 1]\<rparr>
   \<and> fst (ticks [default_answers, default_answers]
          (new_timer\<lparr>state := Running, timeRemaining := 2, listeners := [recorder 1]\<rparr>, new_env []))
     = new_timer\<lparr>state := Running, timeRemaining := 0, listeners := [recorder 1]\<rparr>
   \<and> state (fst (after (completeSession_head True
          (new_timer\<lparr>state := Running, timeRemaining := 0, listeners := [recorder 1]\<rparr>) (new_env []))))
     = Completed
   \<and> world (snd (after (completeSession_head True
          (new_timer\<lparr>state := Running, timeRemaining := 0, listeners := [recorder 1]\<rparr>) (new_env []))))
     = [(1, EvComplete,
         \<lparr>info_state = Completed, info_type = Work, info_duration = 0, info_timeRemaining = 0,
          info_sessionCount = 1, info_sessionId = None\<rparr>)]"
  using countdown [of "new_timer\<lparr>state := Running, timeRemaining := 2, listeners := [recorder 1]\<rparr>"
      defaultSettings True None 0 "new_env []" "[default_answers, default_answers]"]
    countdown [of "new_timer\<lparr>state := Running, timeRemaining := 0, listeners := [recorder 1]\<rparr>"
      defaultSettings True None 0 "new_env []" "[]"]
  by (simp add: new_timer_def new_env_def recorder_def)

text \<open>
  The claim as stated fails: a work session of 25 minutes is started on a new timer and
  the clock ticks 1500 times. The last of these ticks brings \<open>timeRemaining\<close> to 0, and
  the state after it is still \<open>Running\<close>, with no work session counted.
\<close>

theorem countdown_counterexample:
  "state (fst (ticks (replicate 1500 default_answers)
          (start (Some Work) defaultSettings (Some 7) 0 (new_timer :: unit PomodoroTimer) (new_env ()))))
     = Running
   \<and> timeRemaining (fst (ticks (replicate 1500 default_answers)
          (start (Some Work) defaultSettings (Some 7) 0 (new_timer :: unit PomodoroTimer) (new_env ()))))
     = 0
   \<and> sessionCount (fst (ticks (replicate 1500 default_answers)
          (start (Some Work) defaultSettings (Some 7) 0 (new_timer :: unit PomodoroTimer) (new_env ()))))
     = 0"
proof -
  obtain t0 e0 where
    s: "start (Some Work) defaultSettings (Some 7) 0 (new_timer :: unit PomodoroTimer) (new_env ())
          = (t0, e0)"
    by force
  have f: "t0 = new_timer\<lparr>sessionType := Work, duration := 1500, timeRemaining := 1500,
      state := Running, startTime := Some 0, sessionId := Some 7, timerId := Some 1\<rparr>"
    using start_ok_fields [of "new_timer :: unit PomodoroTimer" "Some Work" defaultSettings 7 0 "new_env ()"] s
    by (simp add: new_timer_def new_env_def defaultSettings_def)
  have "fst (ticks (replicate 1500 default_answers) (t0, e0))
      = t0\<lparr>timeRemaining := timeRemaining t0 - int (length (replicate 1500 default_answers))\<rparr>"
    by (rule ticks_count) (simp add: f)
  then show ?thesis unfolding s by (simp add: f new_timer_def)
qed

subsection \<open>A start request that fails\<close>

text \<open>
  Claim C2 at its failing input: \<^verbatim>\<open>start('work')\<close> on a new timer, with the default
  settings, when the start request fails. The error is logged and no interval is
  registered, but the call leaves the state \<open>Running\<close> with \<open>timeRemaining\<close> and
  \<open>duration\<close> at 1500, where they were \<open>Idle\<close>, 0 and 0.
\<close>

theorem start_failed_request:
  "start (Some Work) defaultSettings None 0 (new_timer :: unit PomodoroTimer) (new_env ())
     = (new_timer\<lparr>state := Running, timeRemaining := 1500, duration := 1500, startTime := Some 0\<rparr>,
        (new_env ())\<lparr>console := [''Failed to start session:'']\<rparr>)"
  by (simp add: start_def new_timer_def new_env_def defaultSettings_def console_error_def)

subsection \<open>Emission\<close>





subsection \<open>The next session\<close>

text \<open>
  Claim C5. When a work session completes, the counter of work sessions goes up by one,
  and the type chosen for the next session is \<open>LongBreak\<close> if \<open>sessionsBeforeLongBreak\<close>
  divides the new count and \<open>Break\<close> otherwise. With \<open>sessionsBeforeLongBreak = 4\<close>, the
  completion that finds \<open>k\<close> work sessions counted (the \<open>k + 1\<close>st) chooses
  \<open>LongBreak\<close> exactly when \<open>k mod 4 = 3\<close>: the 1st, 2nd and 3rd choose \<open>Break\<close>, the
  4th \<open>LongBreak\<close>. With \<open>autoStartBreaks\<close> on, and listeners that return from the
  \<^verbatim>\<open>complete\<close> event, the session of the chosen type is started.
\<close>

theorem next_after_work:
  "sessionType t = Work \<Longrightarrow>
   sessionCount (fst (after (completeSession_head ok t e))) = sessionCount t + 1
   \<and> nextSessionType settings (fst (after (completeSession_head ok t e)))
       = Some (if sessionsBeforeLongBreak settings dvd int (sessionCount t + 1)
               then LongBreak else Break)
   \<and> (sessionsBeforeLongBreak settings = 4 \<longrightarrow>
        nextSessionType settings (fst (after (completeSession_head ok t e)))
          = Some (if sessionCount t mod 4 = 3 then LongBreak else Break))
   \<and> (autoStartBreaks settings \<and> \<not> threw (completeSession_head ok t e) \<longrightarrow>
        state (fst (after (completeSession settings ok resp now t e))) = Running
        \<and> sessionType (fst (after (completeSession settings ok resp now t e)))
            = (if sessionsBeforeLongBreak settings dvd int (sessionCount t + 1)
               then LongBreak else Break))"
proof -
  assume w: "sessionType t = Work"
  let ?t = "fst (after (completeSession_head ok t e))"
  let ?nxt = "if sessionsBeforeLongBreak settings dvd int (sessionCount t + 1)
               then LongBreak else Break"
  have c: "sessionCount ?t = sessionCount t + 1" and ty: "sessionType ?t = Work"
    and st: "state ?t = Completed"
    using w by (simp_all add: head_fields)
  have n: "nextSessionType settings ?t = Some ?nxt"
    unfolding nextSessionType_def js_rem_zero_iff c using ty by auto
  have four: "(4::int) dvd int (sessionCount t + 1) \<longleftrightarrow> sessionCount t mod 4 = 3"
    by presburger
  have auto_start: "state (fst (after (completeSession settings ok resp now t e))) = Running
      \<and> sessionType (fst (after (completeSession settings ok resp now t e))) = ?nxt"
    if a: "autoStartBreaks settings" and r: "\<not> threw (completeSession_head ok t e)"
  proof -
    from r obtain t1 e1 where h: "completeSession_head ok t e = Returned (t1, e1)"
      by (cases "completeSession_head ok t e") auto
    have n1: "nextSessionType settings t1 = Some ?nxt" and s1: "state t1 \<noteq> Running"
      using n st h by simp_all
    have "autoStarts settings (Some ?nxt)"
      using a by simp
    then have "completeSession settings ok resp now t e
        = Returned (start (Some ?nxt) settings resp now t1 e1)"
      by (simp add: completeSession_def h completeSession_tail_def n1)
    then show ?thesis
      using start_not_running [OF s1, of "Some ?nxt" settings resp now e1] by simp
  qed
  from c n four auto_start show ?thesis by simp
qed

theorem next_after_work_witness:
  "nextSessionType defaultSettings (fst (after (completeSession_head True
       (new_timer\<lparr>state := Running, sessionCount := 0\<rparr> :: unit PomodoroTimer) (new_env ()))))
     = Some Break
   \<and> nextSessionType defaultSettings (fst (after (completeSession_head True
       (new_timer\<lparr>state := Running, sessionCount := 1\<rparr> :: unit PomodoroTimer) (new_env ()))))
     = Some Break
   \<and> nextSessionType defaultSettings (fst (after (completeSession_head True
       (new_timer\<lparr>state := Running, sessionCount := 2\<rparr> :: unit PomodoroTimer) (new_env ()))))
     = Some Break
   \<and> nextSessionType defaultSettings (fst (after (completeSession_head True
       (new_timer\<lparr>state := Running, sessionCount := 3\<rparr> :: unit PomodoroTimer) (new_env ()))))
     = Some LongBreak
   \<and> sessionCount (fst (after (completeSession_head True
       (new_timer\<lparr>state := Running, sessionCount := 3\<rparr> :: unit PomodoroTimer) (new_env ()))))
     = 4
   \<and> sessionType (fst (after (completeSession defaultSettings True (Some 8) 0
       (new_timer\<lparr>state := Running, sessionCount := 3\<rparr> :: unit PomodoroTimer) (new_env ()))))
     = LongBreak"
  using next_after_work [of "new_timer\<lparr>state := Running, sessionCount := 0\<rparr> :: unit PomodoroTimer"
      True "new_env ()" defaultSettings]
    next_after_work [of "new_timer\<lparr>state := Running, sessionCount := 1\<rparr> :: unit PomodoroTimer"
      True "new_env ()" defaultSettings]
    next_after_work [of "new_timer\<lparr>state := Running, sessionCount := 2\<rparr> :: unit PomodoroTimer"
      True "new_env ()" defaultSettings]
    next_after_work [of "new_timer\<lparr>state := Running, sessionCount := 3\<rparr> :: unit PomodoroTimer"
      True "new_env ()" defaultSettings "Some 8" 0]
  by (simp add: new_timer_def defaultSettings_def completeSession_head_def cancelTimer_def
      emitEvent_def)




subsection \<open>Starting, pausing and resuming\<close>

text \<open>
  Claim C7. \<^verbatim>\<open>start(type)\<close> in state \<open>Idle\<close>, for each of the three types, sets
  \<open>timeRemaining\<close> and \<open>duration\<close> to the minutes configured for the type times 60 and
  the state to \<open>Running\<close> (whatever the start request answers).
\<close>

theorem start_from_idle:
  "state t = Idle \<Longrightarrow>
   state (fst (start (Some ty) settings resp now t e)) = Running
   \<and> timeRemaining (fst (start (Some ty) settings resp now t e))
       = (case ty of Work \<Rightarrow> workDuration settings * 60
                   | Break \<Rightarrow> breakDuration settings * 60
                   | LongBreak \<Rightarrow> longBreakDuration settings * 60)
   \<and> duration (fst (start (Some ty) settings resp now t e))
       = timeRemaining (fst (start (Some ty) settings resp now t e))"
  using start_not_running [of t "Some ty" settings resp now e]
  by (cases ty) simp_all

theorem start_from_idle_witness:
  "state (new_timer :: unit PomodoroTimer) = Idle
   \<and> state (fst (start (Some Break) defaultSettings (Some 7) 0 (new_timer :: unit PomodoroTimer)
        (new_env ()))) = Running
   \<and> timeRemaining (fst (start (Some Break) defaultSettings (Some 7) 0
        (new_timer :: unit PomodoroTimer) (new_env ()))) = 300
   \<and> duration (fst (start (Some Break) defaultSettings (Some 7) 0
        (new_timer :: unit PomodoroTimer) (new_env ()))) = 300"
  using start_from_idle [of "new_timer :: unit PomodoroTimer" Break defaultSettings "Some 7" 0
      "new_env ()"]
  by (simp add: new_timer_def defaultSettings_def)

text \<open>
  Claim C8. \<^verbatim>\<open>pause\<close> in a state other than \<open>Running\<close>, and \<^verbatim>\<open>resume\<close> in a state
  other than \<open>Paused\<close>, return with the timer and everything around it unchanged.
\<close>

theorem pause_resume_guards:
  "(state t \<noteq> Running \<longrightarrow> pause t e = Returned (t, e))
   \<and> (state t \<noteq> Paused \<longrightarrow> resume t e = Returned (t, e))"
  by (simp add: pause_def resume_def)

theorem pause_resume_guards_witness:
  "state (new_timer :: unit PomodoroTimer) = Idle
   \<and> pause (new_timer :: unit PomodoroTimer) (new_env ()) = Returned (new_timer, new_env ())
   \<and> resume (new_timer :: unit PomodoroTimer) (new_env ()) = Returned (new_timer, new_env ())"
  using pause_resume_guards [of "new_timer :: unit PomodoroTimer" "new_env ()"]
  by (simp add: new_timer_def)


subsection \<open>The counter of work sessions\<close>

lemma start_sessionCount: "sessionCount (fst (start ty settings resp now t e)) = sessionCount t"
proof (cases "state t = Running")
  case True
  then show ?thesis by (simp add: start_def)
next
  case False
  then show ?thesis using start_not_running [of t ty settings resp now e] by simp
qed

lemma pause_sessionCount: "sessionCount (fst (after (pause t e))) = sessionCount t"
proof -
  obtain t1 e1 where c: "cancelTimer t e = (t1, e1)" by force
  have "sessionCount t1 = sessionCount t"
    using cancelTimer_fields(5) [of t e] c by simp
  then show ?thesis by (simp add: pause_def c Let_def)
qed

lemma resume_sessionCount: "sessionCount (fst (after (resume t e))) = sessionCount t"
  by (simp add: resume_def startTicking_def setInterval_def Let_def split: prod.splits)

lemma stop_sessionCount: "sessionCount (fst (after (stop ok t e))) = sessionCount t"
proof -
  obtain t1 e1 where c: "cancelTimer t e = (t1, e1)" by force
  have "sessionCount t1 = sessionCount t"
    using cancelTimer_fields(5) [of t e] c by simp
  then show ?thesis by (simp add: stop_def c reset_def Let_def)
qed

lemma tail_sessionCount:
  "sessionCount (fst (completeSession_tail settings resp now t e)) = sessionCount t"
  by (simp add: completeSession_tail_def Let_def start_sessionCount)

lemma completeSession_sessionCount:
  "sessionCount (fst (after (completeSession settings ok resp now t e)))
     = (if sessionType t = Work then sessionCount t + 1 else sessionCount t)"
proof (cases "completeSession_head ok t e")
  case (Returned s)
  obtain t1 e1 where s: "s = (t1, e1)" by force
  have "sessionCount t1 = (if sessionType t = Work then sessionCount t + 1 else sessionCount t)"
    using head_fields(4) [of ok t e] Returned s by simp
  then show ?thesis
    by (simp add: completeSession_def Returned s tail_sessionCount)
next
  case (Threw s)
  then show ?thesis
    using head_fields(4) [of ok t e] by (simp add: completeSession_def)
qed

lemma tick_sessionCount:
  "sessionCount (fst (after (tick settings ok resp now t e)))
     = (if timeRemaining t \<le> 0 \<and> sessionType t = Work then sessionCount t + 1 else sessionCount t)"
  by (simp add: tick_def completeSession_sessionCount Let_def)

lemma perform_sessionCount:
  "sessionCount (fst (after (perform a c (t, e))))
     = (if c = ClockTick \<and> intervals e \<noteq> [] \<and> timeRemaining t \<le> 0 \<and> sessionType t = Work
        then sessionCount t + 1 else sessionCount t)"
  by (cases c)
     (simp_all add: start_sessionCount pause_sessionCount resume_sessionCount stop_sessionCount
        tick_sessionCount)

lemma run_sessionCount: "sessionCount (fst s) \<le> sessionCount (fst (run cs s))"
proof (induction cs arbitrary: s)
  case Nil
  then show ?case by simp
next
  case (Cons x cs)
  obtain a c where x: "x = (a, c)" by force
  obtain t e where s: "s = (t, e)" by force
  have "sessionCount t \<le> sessionCount (fst (after (perform a c (t, e))))"
    by (simp add: perform_sessionCount)
  also have "\<dots> \<le> sessionCount (fst (run cs (after (perform a c (t, e)))))"
    by (rule Cons.IH)
  finally show ?case by (simp add: x s)
qed

lemma initialize_sessionCount:
  "sessionCount t \<le> sessionCount (fst (after (initialize settings ok resp now t e)))"
  by (auto simp: initialize_def completeSession_sessionCount startTicking_def setInterval_def
        Let_def split: option.splits prod.splits)

text \<open>
  Claim C9. No operation lowers or resets \<open>sessionCount\<close>: \<^verbatim>\<open>reset\<close> and \<^verbatim>\<open>stop\<close>
  leave it as it is; of the public calls and the clock tick, the only one that changes it
  is the tick that completes a work session, which adds one (as \<^verbatim>\<open>completeSession\<close>
  does for a work session, and for no other); \<^verbatim>\<open>initialize\<close> does not lower it; so
  over any sequence of calls and ticks the count never goes down, whatever was stopped or
  abandoned on the way.
\<close>

theorem sessionCount_only_grows:
  "sessionCount (fst (reset t e)) = sessionCount t
   \<and> sessionCount (fst (after (stop ok t e))) = sessionCount t
   \<and> sessionCount (fst (after (perform a c (t, e))))
       = (if c = ClockTick \<and> intervals e \<noteq> [] \<and> timeRemaining t \<le> 0 \<and> sessionType t = Work
          then sessionCount t + 1 else sessionCount t)
   \<and> sessionCount (fst (after (completeSession settings ok resp now t e)))
       = (if sessionType t = Work then sessionCount t + 1 else sessionCount t)
   \<and> sessionCount t \<le> sessionCount (fst (after (initialize settings ok resp now t e)))
   \<and> sessionCount t \<le> sessionCount (fst (run cs (t, e)))"
  using run_sessionCount [of "(t, e)" cs] initialize_sessionCount [of t settings ok resp now e]
  by (simp add: stop_sessionCount perform_sessionCount completeSession_sessionCount)

theorem sessionCount_only_grows_witness:
  "sessionCount (fst (after (stop True
      (new_timer\<lparr>state := Running, timeRemaining := 900, sessionCount := 3\<rparr> :: unit PomodoroTimer)
      (new_env ())))) = 3
   \<and> sessionCount (fst (after (perform default_answers ClockTick
      (new_timer\<lparr>state := Running, timerId := Some 1, sessionCount := 3\<rparr> :: unit PomodoroTimer,
       (new_env ())\<lparr>intervals := [1], issued := 1\<rparr>)))) = 4
   \<and> 3 \<le> sessionCount (fst (run [(default_answers, CallStop), (default_answers, CallStart (Some Work))]
      (new_timer\<lparr>state := Running, timeRemaining := 900, sessionCount := 3\<rparr> :: unit PomodoroTimer,
       new_env ())))"
  using sessionCount_only_grows [of
      "new_timer\<lparr>state := Running, timeRemaining := 900, sessionCount := 3\<rparr> :: unit PomodoroTimer"
      "new_env ()" True default_answers CallStop defaultSettings None 0
      "[(default_answers, CallStop), (default_answers, CallStart (Some Work))]"]
    sessionCount_only_grows [of
      "new_timer\<lparr>state := Running, timerId := Some 1, sessionCount := 3\<rparr> :: unit PomodoroTimer"
      "(new_env ())\<lparr>intervals := [1], issued := 1\<rparr>" True default_answers ClockTick defaultSettings
      None 0 "[]"]
  by (simp add: new_timer_def new_env_def)

subsection \<open>The guard of start\<close>

text \<open>
  Claim C10. \<^verbatim>\<open>start\<close> returns at once, changing nothing, in state \<open>Running\<close>, and
  only there: in state \<open>Paused\<close> or \<open>Completed\<close> it begins a session of the given type
  with \<open>timeRemaining\<close> and \<open>duration\<close> at the full configured length, whatever time the
  current session had left, and (when the start request answers) with the new session
  id and a live interval.
\<close>

theorem start_guard:
  "(state t = Running \<longrightarrow> start ty settings resp now t e = (t, e))
   \<and> (state t = Paused \<or> state t = Completed \<longrightarrow>
        state (fst (start (Some x) settings resp now t e)) = Running
        \<and> sessionType (fst (start (Some x) settings resp now t e)) = x
        \<and> timeRemaining (fst (start (Some x) settings resp now t e))
            = (case x of Work \<Rightarrow> workDuration settings * 60
                       | Break \<Rightarrow> breakDuration settings * 60
                       | LongBreak \<Rightarrow> longBreakDuration settings * 60)
        \<and> duration (fst (start (Some x) settings resp now t e))
            = timeRemaining (fst (start (Some x) settings resp now t e))
        \<and> sessionId (fst (start (Some x) settings (Some i) now t e)) = Some i
        \<and> timerId (fst (start (Some x) settings (Some i) now t e)) = Some (Suc (issued e))
        \<and> Suc (issued e) \<in> set (intervals (snd (start (Some x) settings (Some i) now t e))))"
proof -
  have r: "state t = Running \<longrightarrow> start ty settings resp now t e = (t, e)"
    by (simp add: start_def)
  have "state t \<noteq> Running \<Longrightarrow>
      Suc (issued e) \<in> set (intervals (snd (start (Some x) settings (Some i) now t e)))"
    by (auto simp: start_def startTicking_def setInterval_def clearInterval_def Let_def
          emitEvent_def updateStorage_def console_error_def
        split: option.splits outcome.splits prod.splits)
  then show ?thesis
    using r start_not_running [of t "Some x" settings resp now e]
      start_ok_fields [of t "Some x" settings i now e]
    by (cases x) auto
qed

theorem start_guard_witness:
  "start (Some Break) defaultSettings (Some 8) 0
      (new_timer\<lparr>state := Running, timeRemaining := 900, duration := 1500\<rparr> :: unit PomodoroTimer)
      (new_env ())
     = (new_timer\<lparr>state := Running, timeRemaining := 900, duration := 1500\<rparr>, new_env ())
   \<and> state (fst (start (Some Break) defaultSettings (Some 8) 0
      (new_timer\<lparr>state := Paused, timeRemaining := 900, duration := 1500\<rparr> :: unit PomodoroTimer)
      (new_env ()))) = Running
   \<and> sessionType (fst (start (Some Break) defaultSettings (Some 8) 0
      (new_timer\<lparr>state := Paused, timeRemaining := 900, duration := 1500\<rparr> :: unit PomodoroTimer)
      (new_env ()))) = Break
   \<and> timeRemaining (fst (start (Some Break) defaultSettings (Some 8) 0
      (new_timer\<lparr>state := Paused, timeRemaining := 900, duration := 1500\<rparr> :: unit PomodoroTimer)
      (new_env ()))) = 300
   \<and> state (fst (start (Some Work) defaultSettings (Some 8) 0
      (new_timer\<lparr>state := Completed, sessionCount := 1\<rparr> :: unit PomodoroTimer)
      (new_env ()))) = Running"
  using start_guard [of
      "new_timer\<lparr>state := Running, timeRemaining := 900, duration := 1500\<rparr> :: unit PomodoroTimer"
      "Some Break" defaultSettings "Some 8" 0 "new_env ()" Break 8]
    start_guard [of
      "new_timer\<lparr>state := Paused, timeRemaining := 900, duration := 1500\<rparr> :: unit PomodoroTimer"
      "Some Break" defaultSettings "Some 8" 0 "new_env ()" Break 8]
    start_guard [of
      "new_timer\<lparr>state := Completed, sessionCount := 1\<rparr> :: unit PomodoroTimer"
      "Some Work" defaultSettings "Some 8" 0 "new_env ()" Work 8]
  by (simp add: new_timer_def defaultSettings_def)


section \<open>Properties of blocking\<close>

lemma checkIfBlocked_parsed:
  "\<forall>s\<in>set sites. isActive s \<longrightarrow> hn (url s) \<noteq> None \<Longrightarrow>
   checkIfBlocked hn u sites
     = Some (\<exists>s\<in>set sites. isActive s \<and> (\<exists>h. hn (url s) = Some h \<and> sublist h u))"
  by (induction sites) (auto split: option.splits)

lemma facebook_in_url: "sublist ''facebook.com'' ''https://sub.facebook.com/feed''"
  by code_simp

lemma session_change:
  "isWorkSessionActive (handleStorageChange sitesChange (Some cur) ''sync'' bg)
     = (\<exists>c. cur = Some c \<and> cs_isActive c \<and> cs_type c = Work)"
  "blockedSites (handleStorageChange (Some bs) sessionChange ''sync'' bg) = bs"
  by (auto simp: handleStorageChange_def Let_def split: option.splits)

text \<open>
  Claim C4, as amended. Provided the \<open>url\<close> of every active blocked site parses, a tab
  whose load completed is redirected exactly when its URL is not empty, a work session is
  active, the URL does not start with \<^verbatim>\<open>chrome-extension://\<close>, and the URL contains
  the hostname of some active blocked site; the content script shows its overlay exactly
  when the stored session is an active work session and the URL contains such a hostname.
  A work session is active, for the background script, when the stored session is active
  and of type \<open>Work\<close>. In particular \<^verbatim>\<open>https://sub.facebook.com/feed\<close> with the active
  blocked site \<^verbatim>\<open>https://facebook.com\<close> is blocked during an active work session and
  is not during an active break.
\<close>

theorem blocked_when:
  "((\<forall>s\<in>set (blockedSites bg). isActive s \<longrightarrow> hn (url s) \<noteq> None) \<longrightarrow>
      handleTabUpdate hn bg ''complete'' u
        = Some (u \<noteq> [] \<and> isWorkSessionActive bg \<and> \<not> prefix ''chrome-extension://'' u
                \<and> (\<exists>s\<in>set (blockedSites bg). isActive s
                      \<and> (\<exists>h. hn (url s) = Some h \<and> sublist h u))))
   \<and> ((\<forall>s\<in>set sites. isActive s \<longrightarrow> hn (url s) \<noteq> None) \<longrightarrow>
      content_initialize hn cur (Some sites) u
        = Some ((\<exists>c. cur = Some c \<and> cs_isActive c \<and> cs_type c = Work)
                \<and> (\<exists>s\<in>set sites. isActive s \<and> (\<exists>h. hn (url s) = Some h \<and> sublist h u))))
   \<and> isWorkSessionActive (handleStorageChange sitesChange (Some cur) ''sync'' bg)
        = (\<exists>c. cur = Some c \<and> cs_isActive c \<and> cs_type c = Work)
   \<and> (hn ''https://facebook.com'' = Some ''facebook.com'' \<and> cs_isActive c \<longrightarrow>
        handleTabUpdate hn
            (handleStorageChange
               (Some [\<lparr>site_id = k, url = ''https://facebook.com'', isActive = True\<rparr>])
               (Some (Some c)) ''sync'' bg)
            ''complete'' ''https://sub.facebook.com/feed''
          = Some (cs_type c = Work)
        \<and> content_initialize hn (Some c)
            (Some [\<lparr>site_id = k, url = ''https://facebook.com'', isActive = True\<rparr>])
            ''https://sub.facebook.com/feed''
          = Some (cs_type c = Work))"
proof -
  have tab: "(\<forall>s\<in>set (blockedSites bg). isActive s \<longrightarrow> hn (url s) \<noteq> None) \<longrightarrow>
      handleTabUpdate hn bg ''complete'' u
        = Some (u \<noteq> [] \<and> isWorkSessionActive bg \<and> \<not> prefix ''chrome-extension://'' u
                \<and> (\<exists>s\<in>set (blockedSites bg). isActive s
                      \<and> (\<exists>h. hn (url s) = Some h \<and> sublist h u)))"
    by (simp add: handleTabUpdate_def isBlocked_def checkIfBlocked_parsed)
  have page: "(\<forall>s\<in>set sites. isActive s \<longrightarrow> hn (url s) \<noteq> None) \<longrightarrow>
      content_initialize hn cur (Some sites) u
        = Some ((\<exists>c. cur = Some c \<and> cs_isActive c \<and> cs_type c = Work)
                \<and> (\<exists>s\<in>set sites. isActive s \<and> (\<exists>h. hn (url s) = Some h \<and> sublist h u)))"
    by (auto simp: content_initialize_def checkIfBlocked_parsed split: option.splits)
  have ex: "hn ''https://facebook.com'' = Some ''facebook.com'' \<and> cs_isActive c \<longrightarrow>
        handleTabUpdate hn
            (handleStorageChange
               (Some [\<lparr>site_id = k, url = ''https://facebook.com'', isActive = True\<rparr>])
               (Some (Some c)) ''sync'' bg)
            ''complete'' ''https://sub.facebook.com/feed''
          = Some (cs_type c = Work)
        \<and> content_initialize hn (Some c)
            (Some [\<lparr>site_id = k, url = ''https://facebook.com'', isActive = True\<rparr>])
            ''https://sub.facebook.com/feed''
          = Some (cs_type c = Work)"
    by (simp add: handleTabUpdate_def isBlocked_def content_initialize_def session_change
        facebook_in_url)
  from tab page ex show ?thesis
    by (simp only: session_change(1) simp_thms)
qed


theorem blocked_when_witness:
  "handleTabUpdate example_hostname
      (handleStorageChange
         (Some [\<lparr>site_id = 1, url = ''https://facebook.com'', isActive = True\<rparr>])
         (Some (Some \<lparr>cs_id = Some 7, cs_type = Work, cs_startTime = Some 0, cs_endTime = None,
                       cs_completed = False, cs_timeRemaining = 1500, cs_isActive = True\<rparr>))
         ''sync'' new_background)
      ''complete'' ''https://sub.facebook.com/feed''
     = Some True
   \<and> handleTabUpdate example_hostname
      (handleStorageChange
         (Some [\<lparr>site_id = 1, url = ''https://facebook.com'', isActive = True\<rparr>])
         (Some (Some \<lparr>cs_id = Some 8, cs_type = Break, cs_startTime = Some 0, cs_endTime = None,
                       cs_completed = False, cs_timeRemaining = 300, cs_isActive = True\<rparr>))
         ''sync'' new_background)
      ''complete'' ''https://sub.facebook.com/feed''
     = Some False
   \<and> content_initialize example_hostname
      (Some \<lparr>cs_id = Some 7, cs_type = Work, cs_startTime = Some 0, cs_endTime = None,
             cs_completed = False, cs_timeRemaining = 1500, cs_isActive = True\<rparr>)
      (Some [\<lparr>site_id = 1, url = ''https://facebook.com'', isActive = True\<rparr>])
      ''https://sub.facebook.com/feed''
     = Some True
   \<and> content_initialize example_hostname
      (Some \<lparr>cs_id = Some 8, cs_type = Break, cs_startTime = Some 0, cs_endTime = None,
             cs_completed = False, cs_timeRemaining = 300, cs_isActive = True\<rparr>)
      (Some [\<lparr>site_id = 1, url = ''https://facebook.com'', isActive = True\<rparr>])
      ''https://sub.facebook.com/feed''
     = Some False"
  using blocked_when [where hn = example_hostname and k = 1 and bg = new_background
      and c = "\<lparr>cs_id = Some 7, cs_type = Work, cs_startTime = Some 0, cs_endTime = None,
                cs_completed = False, cs_timeRemaining = 1500, cs_isActive = True\<rparr>"]
    blocked_when [where hn = example_hostname and k = 1 and bg = new_background
      and c = "\<lparr>cs_id = Some 8, cs_type = Break, cs_startTime = Some 0, cs_endTime = None,
                cs_completed = False, cs_timeRemaining = 300, cs_isActive = True\<rparr>"]
  by (simp add: example_hostname_def)

text \<open>
  The claim as stated fails: during an active work session, a page of an extension whose
  URL contains the hostname of an active blocked site is not blocked.
\<close>

theorem blocked_when_counterexample:
  "isWorkSessionActive
      \<lparr>isWorkSessionActive = True,
       blockedSites = [\<lparr>site_id = 1, url = ''https://facebook.com'', isActive = True\<rparr>]\<rparr>
   \<and> example_hostname ''https://facebook.com'' = Some ''facebook.com''
   \<and> sublist ''facebook.com'' ''chrome-extension://abcdefgh/index.html?from=facebook.com''
   \<and> handleTabUpdate example_hostname
        \<lparr>isWorkSessionActive = True,
         blockedSites = [\<lparr>site_id = 1, url = ''https://facebook.com'', isActive = True\<rparr>]\<rparr>
        ''complete'' ''chrome-extension://abcdefgh/index.html?from=facebook.com''
       = Some False"
proof -
  have "sublist ''facebook.com'' ''chrome-extension://abcdefgh/index.html?from=facebook.com''"
    by code_simp
  then show ?thesis
    by (simp add: handleTabUpdate_def isBlocked_def example_hostname_def)
qed


end
